theory Spec2Isabelle
  imports Main
begin

section \<open>Python strings\<close>

text \<open>
  The terms handled by \<^verbatim>\<open>scripts/conp_to_nidm_terms/functions.py\<close> are Python
  strings. They are modelled as \<^typ>\<open>string\<close> over the ASCII range, where Python's
  Unicode case mapping and character classes are the tables below.
\<close>

definition ascii_uppercase :: string where
  "ascii_uppercase = ''ABCDEFGHIJKLMNOPQRSTUVWXYZ''"

definition ascii_lowercase :: string where
  "ascii_lowercase = ''abcdefghijklmnopqrstuvwxyz''"

definition ascii_digits :: string where
  "ascii_digits = ''0123456789''"

definition char_lower :: "char \<Rightarrow> char" where
  "char_lower c =
     (case map_of (zip ascii_uppercase ascii_lowercase) c of None \<Rightarrow> c | Some d \<Rightarrow> d)"

definition char_upper :: "char \<Rightarrow> char" where
  "char_upper c =
     (case map_of (zip ascii_lowercase ascii_uppercase) c of None \<Rightarrow> c | Some d \<Rightarrow> d)"

definition char_is_cased :: "char \<Rightarrow> bool" where
  "char_is_cased c = (c \<in> set ascii_uppercase \<or> c \<in> set ascii_lowercase)"

definition char_isalnum :: "char \<Rightarrow> bool" where
  \<comment> \<open>\<^verbatim>\<open>x.isalnum()\<close> on a one-character string\<close>
  "char_isalnum c =
     (c \<in> set ascii_uppercase \<or> c \<in> set ascii_lowercase \<or> c \<in> set ascii_digits)"

definition str_lower :: "string \<Rightarrow> string" where
  \<comment> \<open>\<^verbatim>\<open>s.lower()\<close>\<close>
  "str_lower s = map char_lower s"

definition str_upper :: "string \<Rightarrow> string" where
  \<comment> \<open>\<^verbatim>\<open>s.upper()\<close>\<close>
  "str_upper s = map char_upper s"

text \<open>
  \<^verbatim>\<open>s.title()\<close>: a cased character is put in upper case when the character before
  it is not cased (or there is none), and in lower case otherwise; an uncased character
  is kept.
\<close>

fun title_from :: "bool \<Rightarrow> string \<Rightarrow> string" where
  "title_from previous_is_cased [] = []"
| "title_from previous_is_cased (c # cs) =
     (if previous_is_cased then char_lower c else char_upper c)
       # title_from (char_is_cased c) cs"

definition str_title :: "string \<Rightarrow> string" where
  "str_title s = title_from False s"

definition str_replace_space :: "string \<Rightarrow> string" where
  \<comment> \<open>\<^verbatim>\<open>s.replace(" ", "")\<close>\<close>
  "str_replace_space s = filter (\<lambda>c. c \<noteq> CHR '' '') s"

fun str_contains :: "string \<Rightarrow> string \<Rightarrow> bool" where
  \<comment> \<open>\<^verbatim>\<open>sub in s\<close>\<close>
  "str_contains sub [] = (sub = [])"
| "str_contains sub (c # cs) = (take (length sub) (c # cs) = sub \<or> str_contains sub cs)"

section \<open>Output file names\<close>

definition filename_of :: "string \<Rightarrow> string" where
  \<comment> \<open>\<^verbatim>\<open>"".join(x for x in term.title().replace(" ", "") if x.isalnum())\<close>\<close>
  "filename_of term = filter char_isalnum (str_replace_space (str_title term))"

definition hex_digit :: "nat \<Rightarrow> char" where
  "hex_digit n = ''0123456789abcdef'' ! (n mod 16)"

definition repr_char :: "char \<Rightarrow> char \<Rightarrow> string" where
  \<comment> \<open>one character of \<^verbatim>\<open>repr(s)\<close>, inside the quote character chosen for \<open>s\<close>\<close>
  "repr_char quote c =
     (if c = quote \<or> c = CHR 0x5C then [CHR 0x5C, c]
      else if c = CHR 0x09 then [CHR 0x5C, CHR ''t'']
      else if c = CHR 0x0A then [CHR 0x5C, CHR ''n'']
      else if c = CHR 0x0D then [CHR 0x5C, CHR ''r'']
      else if (of_char c :: nat) < 32 \<or> (of_char c :: nat) = 127
        then [CHR 0x5C, CHR ''x'', hex_digit (of_char c div 16), hex_digit (of_char c)]
      else [c])"

definition str_repr :: "string \<Rightarrow> string" where
  \<comment> \<open>\<^verbatim>\<open>repr(s)\<close>: single quotes, unless the string has a single quote and no double quote\<close>
  "str_repr s =
     (let quote = (if CHR 0x27 \<in> set s \<and> CHR 0x22 \<notin> set s then CHR 0x22 else CHR 0x27)
      in [quote] @ concat (map (repr_char quote) s) @ [quote])"

fun join_comma :: "string list \<Rightarrow> string" where
  "join_comma [] = []"
| "join_comma [x] = x"
| "join_comma (x # y # ys) = x @ '', '' @ join_comma (y # ys)"

definition list_repr :: "string list \<Rightarrow> string" where
  \<comment> \<open>a list of strings inside an f-string: \<^verbatim>\<open>f"{v}"\<close>\<close>
  "list_repr v = ''['' @ join_comma (map str_repr v) @ '']''"

fun str_of_nat :: "nat \<Rightarrow> string" where
  "str_of_nat n =
     (if n < 10 then [ascii_digits ! n] else str_of_nat (n div 10) @ [ascii_digits ! (n mod 10)])"

section \<open>Exceptions, dictionaries and loops\<close>

datatype py_exception =
    Exception string
  | KeyError string
  | FileNotFoundError string
  | JSONDecodeError
  | HTTPError string
  | ConnectionError string

text \<open>
  \<^verbatim>\<open>requests.exceptions.HTTPError\<close> is what \<^verbatim>\<open>r.raise_for_status()\<close> raises;
  \<open>ConnectionError\<close> stands for the failures of \<^verbatim>\<open>requests.get\<close> itself
  (connection refused, time-out, ...), which are not subclasses of \<open>HTTPError\<close>.
\<close>

text \<open>
  A JSON object whose fields hold strings is an association list; \<^verbatim>\<open>k in d\<close> is
  \<open>map_of d k \<noteq> None\<close>, and \<^verbatim>\<open>d[k]\<close> raises \<open>KeyError\<close> on a missing key.
\<close>

type_synonym obj = "(string \<times> string) list"

definition getitem :: "(string \<times> 'v) list \<Rightarrow> string \<Rightarrow> py_exception + 'v" where
  "getitem d k = (case map_of d k of None \<Rightarrow> Inl (KeyError k) | Some v \<Rightarrow> Inr v)"

fun dict_set :: "'k \<Rightarrow> 'v \<Rightarrow> ('k \<times> 'v) list \<Rightarrow> ('k \<times> 'v) list" where
  \<comment> \<open>\<^verbatim>\<open>d[k] = v\<close> on an insertion-ordered dict\<close>
  "dict_set k v [] = [(k, v)]"
| "dict_set k v ((k', v') # d) = (if k' = k then (k, v) # d else (k', v') # dict_set k v d)"

fun for_each :: "('a \<Rightarrow> 's \<Rightarrow> 'e + 's) \<Rightarrow> 'a list \<Rightarrow> 's \<Rightarrow> 'e + 's" where
  \<comment> \<open>a \<^verbatim>\<open>for\<close> loop whose body may raise\<close>
  "for_each body [] s = Inr s"
| "for_each body (x # xs) s =
     (case body x s of Inl e \<Rightarrow> Inl e | Inr s' \<Rightarrow> for_each body xs s')"

fun map_raise :: "('a \<Rightarrow> 'e + 'b) \<Rightarrow> 'a list \<Rightarrow> 'e + 'b list" where
  \<comment> \<open>a comprehension whose element expression may raise\<close>
  "map_raise f [] = Inr []"
| "map_raise f (x # xs) =
     (case f x of Inl e \<Rightarrow> Inl e
      | Inr y \<Rightarrow> (case map_raise f xs of Inl e \<Rightarrow> Inl e | Inr ys \<Rightarrow> Inr (y # ys)))"

text \<open>
  A Python \<^verbatim>\<open>set\<close> of strings is a duplicate-free list; the order in which Python
  enumerates a set is not specified, the model enumerates in insertion order.
\<close>

definition set_add :: "'a \<Rightarrow> 'a list \<Rightarrow> 'a list" where
  "set_add x s = (if x \<in> set s then s else s @ [x])"

definition set_update :: "'a list \<Rightarrow> 'a list \<Rightarrow> 'a list" where
  \<comment> \<open>\<^verbatim>\<open>s.update(set(xs))\<close>\<close>
  "set_update xs s = foldl (\<lambda>s x. set_add x s) s xs"

section \<open>The lookup call\<close>

definition NIF_API_URL :: string where
  "NIF_API_URL = ''https://scicrunch.org/api/1/ilx/search/term/''"

text \<open>\<^verbatim>\<open>api_key.json\<close>: the fields \<^verbatim>\<open>api_key\<close> and \<^verbatim>\<open>_comment\<close>, when present.\<close>

record credentials =
  api_key :: "string option"
  comment :: "string option"

text \<open>
  The body of a response: \<^verbatim>\<open>response["data"]["existing_ids"]\<close> is a list of objects,
  each with the fields \<^verbatim>\<open>curie\<close> and \<^verbatim>\<open>iri\<close> when present.
\<close>

record api_data =
  existing_ids :: "obj list option"

record api_body =
  data :: "api_data option"

text \<open>
  What \<^verbatim>\<open>requests.get\<close> returns: whether the status is one that \<^verbatim>\<open>raise_for_status\<close>
  accepts, the text of the \<open>HTTPError\<close> it raises otherwise, and the content as
  \<^verbatim>\<open>json.loads\<close> reads it (\<open>None\<close> when the content is not JSON).
\<close>

record http_response =
  status_ok :: bool
  status_error :: string
  content :: "api_body option"

datatype json = JNull | JBool bool | JInt int | JString string
  | JArray "json list" | JObject "(string \<times> json) list"

type_synonym document = "(string \<times> json) list"

text \<open>
  What the module reads from outside: the credentials file (\<open>None\<close> when there is no
  such file), the lookup service as a function of the URL requested, the template loaded
  into \<^verbatim>\<open>JSONLD_TEMPLATE\<close>, and \<^verbatim>\<open>CURRENT_WORKING_DIR\<close>.
\<close>

record env =
  api_key_file :: "credentials option"
  requests_get :: "string \<Rightarrow> py_exception + http_response"
  JSONLD_TEMPLATE :: document
  CURRENT_WORKING_DIR :: string

definition raise_error :: "string \<Rightarrow> py_exception + 'a" where
  \<comment> \<open>\<^verbatim>\<open>def _raise_error(er): raise Exception(er)\<close>\<close>
  "raise_error er = Inl (Exception er)"

fun select_match :: "string \<Rightarrow> obj list \<Rightarrow> py_exception + string" where
  \<comment> \<open>the loop over \<^verbatim>\<open>response["data"]["existing_ids"]\<close>\<close>
  "select_match match [] = Inr match"
| "select_match match (i # ids) =
     (if map_of i ''curie'' \<noteq> None
      then (case getitem i ''curie'' of Inl e \<Rightarrow> Inl e
            | Inr c \<Rightarrow>
               if str_contains (str_upper ''ILX:'') c
               then (case getitem i ''iri'' of Inl e \<Rightarrow> Inl e | Inr u \<Rightarrow> select_match u ids)
               else select_match match ids)
      else select_match match ids)"

definition load_api_key :: "env \<Rightarrow> py_exception + string" where
  \<comment> \<open>lines 36 to 38: the key, read from the file at every call\<close>
  "load_api_key w =
     (case api_key_file w of None \<Rightarrow> Inl (FileNotFoundError ''api_key.json'')
      | Some api_key_json \<Rightarrow>
         (case api_key api_key_json of None \<Rightarrow> Inl (KeyError ''api_key'')
          | Some k \<Rightarrow>
             if k \<noteq> [] then Inr k
             else (case comment api_key_json of None \<Rightarrow> Inl (KeyError ''_comment'')
                   | Some er \<Rightarrow> raise_error er)))"

definition api_request :: "env \<Rightarrow> string \<Rightarrow> string \<Rightarrow> py_exception + string" where
  \<comment> \<open>the body of the \<^verbatim>\<open>try\<close>, lines 41 to 53\<close>
  "api_request w term key =
     (let api_key = ''?key='' @ key in
      case requests_get w (NIF_API_URL @ term @ api_key) of Inl e \<Rightarrow> Inl e
      | Inr r \<Rightarrow>
         if \<not> status_ok r then Inl (HTTPError (status_error r))
         else (case content r of None \<Rightarrow> Inl JSONDecodeError
               | Some response \<Rightarrow>
                  (case data response of None \<Rightarrow> Inl (KeyError ''data'')
                   | Some d \<Rightarrow>
                      (case existing_ids d of None \<Rightarrow> Inl (KeyError ''existing_ids'')
                       | Some ids \<Rightarrow>
                          if ids \<noteq> [] then select_match [] ids
                          else Inr ''no match found''))))"

text \<open>
  \<open>get_api_response\<close> returns the value returned (\<open>None\<close> when the function falls off
  its end after the \<^verbatim>\<open>except\<close> clause) and the lines sent to \<^verbatim>\<open>logger.error\<close>.
\<close>

definition get_api_response :: "env \<Rightarrow> string \<Rightarrow> py_exception + (string option \<times> string list)" where
  "get_api_response w term =
     (case load_api_key w of Inl e \<Rightarrow> Inl e
      | Inr key \<Rightarrow>
         (case api_request w term key of
            Inr match \<Rightarrow> Inr (Some match, [])
          | Inl (HTTPError e) \<Rightarrow> Inr (None, [''Error: '' @ e])
          | Inl e \<Rightarrow> Inl e))"

section \<open>The Collector\<close>

text \<open>
  A \<^verbatim>\<open>DATS.json\<close> document, as far as \<open>collect_values\<close> reads it. A field is \<open>None\<close>
  when the document does not have it. An entry of \<^verbatim>\<open>types\<close> maps a schema name
  (\<^verbatim>\<open>information\<close>, \<^verbatim>\<open>method\<close>, ...) to an object; the entries of \<^verbatim>\<open>licenses\<close>,
  \<^verbatim>\<open>isAbout\<close> and \<^verbatim>\<open>keywords\<close> are objects; an entry of \<^verbatim>\<open>distributions\<close> has a list
  \<^verbatim>\<open>formats\<close> or none.
\<close>

record distribution =
  formats_of :: "string list option"

record dats =
  dats_privacy :: "string option"
  dats_types :: "(string \<times> obj) list list option"
  dats_licenses :: "obj list option"
  dats_isAbout :: "obj list option"
  dats_distributions :: "distribution list option"
  dats_keywords :: "obj list option"

text \<open>
  The tree under \<^verbatim>\<open>PROJECTS\<close>: a directory has files, each with its content as
  \<^verbatim>\<open>json.load\<close> reads it (\<open>None\<close> when it is not JSON), and subdirectories.
  \<open>os_walk\<close> lists the \<^verbatim>\<open>files\<close> component of what \<^verbatim>\<open>os.walk\<close> yields, top-down.
\<close>

datatype dir = Dir (dir_files: "(string \<times> dats option) list") (dir_subdirs: "dir list")

fun os_walk :: "dir \<Rightarrow> (string \<times> dats option) list list" where
  "os_walk (Dir files directories) = files # concat (map os_walk directories)"

record collected =
  privacy_values :: "string list"
  licenses_values :: "string list"
  types_datatype_values :: "string list"
  is_about_values :: "string list"
  distributions_formats :: "string list"
  keywords_values :: "string list"
  dats_files_count :: nat

definition datatype_schemas :: "string list" where
  "datatype_schemas = [''information'', ''method'', ''platform'', ''instrument'']"

definition collect_privacy :: "dats \<Rightarrow> collected \<Rightarrow> py_exception + collected" where
  \<comment> \<open>lines 86 and 87, with \<^verbatim>\<open>privacy\<close> true\<close>
  "collect_privacy dats_data st =
     (case dats_privacy dats_data of None \<Rightarrow> Inr st
      | Some p \<Rightarrow> Inr (st\<lparr>privacy_values := set_add p (privacy_values st)\<rparr>))"

definition collect_typ :: "(string \<times> obj) list \<Rightarrow> collected \<Rightarrow> py_exception + collected" where
  \<comment> \<open>line 94\<close>
  "collect_typ typ st =
     (case map_raise (\<lambda>t. case getitem typ t of Inl e \<Rightarrow> Inl e | Inr s \<Rightarrow> getitem s ''value'')
             (filter (\<lambda>t. map_of typ t \<noteq> None) datatype_schemas) of
        Inl e \<Rightarrow> Inl e
      | Inr vs \<Rightarrow> Inr (st\<lparr>types_datatype_values := set_update vs (types_datatype_values st)\<rparr>))"

definition collect_types :: "dats \<Rightarrow> collected \<Rightarrow> py_exception + collected" where
  \<comment> \<open>lines 91 to 94\<close>
  "collect_types dats_data st =
     (case dats_types dats_data of None \<Rightarrow> Inl (KeyError ''types'')
      | Some ts \<Rightarrow> for_each collect_typ ts st)"

definition collect_licenses :: "dats \<Rightarrow> collected \<Rightarrow> py_exception + collected" where
  \<comment> \<open>line 98\<close>
  "collect_licenses dats_data st =
     (case dats_licenses dats_data of None \<Rightarrow> Inl (KeyError ''licenses'')
      | Some ls \<Rightarrow>
         (case map_raise (\<lambda>l. getitem l ''name'') ls of Inl e \<Rightarrow> Inl e
          | Inr vs \<Rightarrow> Inr (st\<lparr>licenses_values := set_update vs (licenses_values st)\<rparr>)))"

definition collect_each_is_about :: "obj \<Rightarrow> collected \<Rightarrow> py_exception + collected" where
  \<comment> \<open>lines 103 to 108\<close>
  "collect_each_is_about each_is_about st =
     (if map_of each_is_about ''name'' \<noteq> None
      then (case getitem each_is_about ''name'' of Inl e \<Rightarrow> Inl e
            | Inr v \<Rightarrow> Inr (st\<lparr>is_about_values := set_add v (is_about_values st)\<rparr>))
      else if map_of each_is_about ''value'' \<noteq> None
      then (case getitem each_is_about ''value'' of Inl e \<Rightarrow> Inl e
            | Inr v \<Rightarrow> Inr (st\<lparr>is_about_values := set_add v (is_about_values st)\<rparr>))
      else Inr st)"

definition collect_is_about :: "dats \<Rightarrow> collected \<Rightarrow> py_exception + collected" where
  \<comment> \<open>lines 101 to 108, with \<^verbatim>\<open>is_about\<close> true\<close>
  "collect_is_about dats_data st =
     (case dats_isAbout dats_data of None \<Rightarrow> Inr st
      | Some xs \<Rightarrow> for_each collect_each_is_about xs st)"

definition collect_dist :: "distribution \<Rightarrow> collected \<Rightarrow> py_exception + collected" where
  \<comment> \<open>lines 113 and 114\<close>
  "collect_dist dist st =
     (case formats_of dist of None \<Rightarrow> Inr st
      | Some fs \<Rightarrow> Inr (st\<lparr>distributions_formats := set_update fs (distributions_formats st)\<rparr>))"

definition collect_formats :: "dats \<Rightarrow> collected \<Rightarrow> py_exception + collected" where
  \<comment> \<open>lines 112 to 114\<close>
  "collect_formats dats_data st =
     (case dats_distributions dats_data of None \<Rightarrow> Inl (KeyError ''distributions'')
      | Some ds \<Rightarrow> for_each collect_dist ds st)"

definition collect_keywords :: "dats \<Rightarrow> collected \<Rightarrow> py_exception + collected" where
  \<comment> \<open>line 117\<close>
  "collect_keywords dats_data st =
     (case dats_keywords dats_data of None \<Rightarrow> Inl (KeyError ''keywords'')
      | Some ks \<Rightarrow>
         (case map_raise (\<lambda>k. getitem k ''value'') ks of Inl e \<Rightarrow> Inl e
          | Inr vs \<Rightarrow> Inr (st\<lparr>keywords_values := set_update vs (keywords_values st)\<rparr>)))"

definition when_flag :: "bool \<Rightarrow> ('s \<Rightarrow> 'e + 's) \<Rightarrow> 's \<Rightarrow> 'e + 's" where
  \<comment> \<open>a statement under \<^verbatim>\<open>if flag:\<close>\<close>
  "when_flag flag body st = (if flag then body st else Inr st)"

text \<open>
  The six parameters of \<open>collect_values\<close>, in the order of the source:
  \<^verbatim>\<open>privacy, types, licenses, is_about, formats, keywords\<close>.
\<close>

definition collect_dats ::
  "bool \<Rightarrow> bool \<Rightarrow> bool \<Rightarrow> bool \<Rightarrow> bool \<Rightarrow> bool \<Rightarrow> dats \<Rightarrow> collected \<Rightarrow> py_exception + collected"
where
  \<comment> \<open>lines 85 to 117: one descriptor\<close>
  "collect_dats privacy types licenses is_about formats keywords dats_data =
     for_each (\<lambda>step. step)
       [when_flag privacy (collect_privacy dats_data),
        when_flag types (collect_types dats_data),
        when_flag licenses (collect_licenses dats_data),
        when_flag is_about (collect_is_about dats_data),
        when_flag formats (collect_formats dats_data),
        when_flag keywords (collect_keywords dats_data)]"

definition visit_dir ::
  "bool \<Rightarrow> bool \<Rightarrow> bool \<Rightarrow> bool \<Rightarrow> bool \<Rightarrow> bool \<Rightarrow> (string \<times> dats option) list
     \<Rightarrow> collected \<Rightarrow> py_exception + collected"
where
  \<comment> \<open>lines 79 to 117: the body of the loop over \<^verbatim>\<open>os.walk(PROJECTS)\<close>\<close>
  "visit_dir privacy types licenses is_about formats keywords files st =
     (if ''DATS.json'' \<in> set (map fst files)
      then (let st' = st\<lparr>dats_files_count := dats_files_count st + 1\<rparr> in
            case map_of files ''DATS.json'' of
              Some (Some dats_data) \<Rightarrow>
                collect_dats privacy types licenses is_about formats keywords dats_data st'
            | _ \<Rightarrow> Inl JSONDecodeError)
      else Inr st)"

record report_entry =
  count :: int
  values_of :: "string list"

type_synonym report = "(string \<times> report_entry) list"

definition property_keys :: "string list" where
  "property_keys = [''privacy'', ''licenses'', ''types'', ''is_about'', ''formats'', ''keywords'']"

definition build_report :: "collected \<Rightarrow> report" where
  \<comment> \<open>lines 119 to 127\<close>
  "build_report st =
     foldl (\<lambda>report (key, value).
              if value \<noteq> [] then dict_set key \<lparr>count = int (length value), values_of = value\<rparr> report
              else report)
       []
       (zip property_keys
          [privacy_values st, licenses_values st, types_datatype_values st, is_about_values st,
           distributions_formats st, keywords_values st])"

definition empty_collected :: collected where
  \<comment> \<open>lines 68 to 75\<close>
  "empty_collected =
     \<lparr>privacy_values = [], licenses_values = [], types_datatype_values = [],
      is_about_values = [], distributions_formats = [], keywords_values = [],
      dats_files_count = 0\<rparr>"

definition collect_values ::
  "dir \<Rightarrow> bool \<Rightarrow> bool \<Rightarrow> bool \<Rightarrow> bool \<Rightarrow> bool \<Rightarrow> bool \<Rightarrow> py_exception + (report \<times> nat)"
where
  "collect_values PROJECTS privacy types licenses is_about formats keywords =
     (case for_each (visit_dir privacy types licenses is_about formats keywords)
             (os_walk PROJECTS) empty_collected of
        Inl e \<Rightarrow> Inl e
      | Inr st \<Rightarrow> Inr (build_report st, dats_files_count st))"

text \<open>
  The number of directories of a tree that hold a file named \<^verbatim>\<open>DATS.json\<close>,
  counted on the tree itself.
\<close>

fun dats_dirs :: "dir \<Rightarrow> nat" where
  "dats_dirs (Dir files directories) =
     (if ''DATS.json'' \<in> fst ` set files then 1 else 0) + sum_list (map dats_dirs directories)"

section \<open>The Duplicate Detector\<close>

definition add_term :: "string \<Rightarrow> (string \<times> string list) list \<Rightarrow> (string \<times> string list) list" where
  \<comment> \<open>lines 143 to 146\<close>
  "add_term term normilized_terms =
     (case map_of normilized_terms (str_lower term) of
        Some v \<Rightarrow> dict_set (str_lower term) (v @ [term]) normilized_terms
      | None \<Rightarrow> dict_set (str_lower term) [term] normilized_terms)"

definition normilized :: "string list \<Rightarrow> (string \<times> string list) list" where
  \<comment> \<open>lines 141 to 146: the dict \<^verbatim>\<open>normilized_terms\<close> after the loop over \<^verbatim>\<open>terms\<close>\<close>
  "normilized terms = foldl (\<lambda>d term. add_term term d) [] terms"

definition duplicate_message :: "string \<Rightarrow> string list \<Rightarrow> string" where
  \<comment> \<open>\<^verbatim>\<open>f"{key.title()} duplicate terms: {v}"\<close>\<close>
  "duplicate_message key v = str_title key @ '' duplicate terms: '' @ list_repr v"

text \<open>
  The state of the loop of \<open>find_duplicates\<close>: the list \<^verbatim>\<open>errors\<close> and the lines sent
  to \<^verbatim>\<open>logger.info\<close>.
\<close>

definition check_key :: "report \<Rightarrow> string list \<times> string list \<Rightarrow> string \<Rightarrow> string list \<times> string list" where
  \<comment> \<open>lines 139 to 153: the body of the loop over the six keys\<close>
  "check_key report st key =
     (case map_of report key of None \<Rightarrow> st
      | Some entry \<Rightarrow>
         (let normilized_terms = normilized (values_of entry) in
          if count entry = int (length normilized_terms)
          then (fst st, snd st @ [''All terms are unique in '' @ key @ ''.''])
          else (fst st @ map (\<lambda>(k, v). duplicate_message key v)
                           (filter (\<lambda>(k, v). length v > 1) normilized_terms),
                snd st)))"

definition find_duplicates_log :: "report \<Rightarrow> string list \<times> string list" where
  "find_duplicates_log report = foldl (check_key report) ([], []) property_keys"

definition find_duplicates :: "report \<Rightarrow> string list" where
  "find_duplicates report = fst (find_duplicates_log report)"

text \<open>
  The groups of a list of terms, in the words of the specification: for every lowercased
  form, in the order of first appearance, the terms that have it.
\<close>

definition first_seen :: "'a list \<Rightarrow> 'a list" where
  "first_seen xs = rev (remdups (rev xs))"

definition case_groups :: "string list \<Rightarrow> string list list" where
  "case_groups terms =
     map (\<lambda>l. filter (\<lambda>t. str_lower t = l) terms) (first_seen (map str_lower terms))"

definition duplicate_groups :: "string list \<Rightarrow> string list list" where
  "duplicate_groups terms = filter (\<lambda>v. length v \<ge> 2) (case_groups terms)"

section \<open>The Term-File Generator\<close>

definition path_join :: "string \<Rightarrow> string \<Rightarrow> string" where
  \<comment> \<open>\<^verbatim>\<open>os.path.join(a, b)\<close> on POSIX\<close>
  "path_join a b =
     (if b \<noteq> [] \<and> hd b = CHR ''/'' then b
      else if a = [] \<or> last a = CHR ''/'' then a @ b
      else a @ ''/'' @ b)"

text \<open>
  What the generator changes: the directories and the files under
  \<^verbatim>\<open>CURRENT_WORKING_DIR\<close> (a file holds the document that \<^verbatim>\<open>json.dump\<close> serialised into
  it), the counter of lowercased terms, the lines sent to \<^verbatim>\<open>logger.error\<close> and the lines
  printed.
\<close>

record gen_state =
  dirs :: "string set"
  files :: "string \<rightharpoonup> document"
  terms_counter :: "(string \<times> nat) list"
  log :: "string list"
  stdout :: "string list"

definition counter_update :: "string \<Rightarrow> (string \<times> nat) list \<Rightarrow> (string \<times> nat) list" where
  \<comment> \<open>\<^verbatim>\<open>terms_counter.update((k,))\<close>\<close>
  "counter_update k c = (case map_of c k of None \<Rightarrow> dict_set k 1 c | Some n \<Rightarrow> dict_set k (n + 1) c)"

definition path_exists :: "gen_state \<Rightarrow> string \<Rightarrow> bool" where
  "path_exists st p = (p \<in> dirs st \<or> files st p \<noteq> None)"

definition describe_term :: "env \<Rightarrow> bool \<Rightarrow> string \<Rightarrow> py_exception + (document \<times> string list)" where
  \<comment> \<open>lines 168 to 172: the document of a term, and the lines logged on the way\<close>
  "describe_term w use_api term =
     (let jsonld_description = dict_set ''label'' (JString (str_lower term)) (JSONLD_TEMPLATE w) in
      if use_api
      then (case get_api_response w (str_lower term) of Inl e \<Rightarrow> Inl e
            | Inr (r, lg) \<Rightarrow>
               Inr (dict_set ''sameAs'' (case r of None \<Rightarrow> JNull | Some u \<Rightarrow> JString u)
                      jsonld_description, lg))
      else Inr (jsonld_description, []))"

definition term_path :: "env \<Rightarrow> string \<Rightarrow> string \<Rightarrow> string" where
  \<comment> \<open>\<^verbatim>\<open>f"{os.path.join(CURRENT_WORKING_DIR, key, filename)}.jsonld"\<close>\<close>
  "term_path w key term =
     path_join (path_join (CURRENT_WORKING_DIR w) key) (filename_of term) @ ''.jsonld''"

definition write_term :: "env \<Rightarrow> bool \<Rightarrow> string \<Rightarrow> string \<Rightarrow> gen_state \<Rightarrow> py_exception + gen_state" where
  \<comment> \<open>lines 167 to 179: the body of the inner loop\<close>
  "write_term w use_api key term st =
     (let st1 = st\<lparr>terms_counter := counter_update (str_lower term) (terms_counter st)\<rparr> in
      case describe_term w use_api term of Inl e \<Rightarrow> Inl e
      | Inr (jsonld_description, lg) \<Rightarrow>
         (let st2 = st1\<lparr>log := log st1 @ lg\<rparr>;
              folder = path_join (CURRENT_WORKING_DIR w) key;
              st3 = (if \<not> path_exists st2 folder then st2\<lparr>dirs := insert folder (dirs st2)\<rparr>
                     else st2)
          in Inr (st3\<lparr>files := (files st3)(term_path w key term \<mapsto> jsonld_description)\<rparr>)))"

definition write_property :: "env \<Rightarrow> bool \<Rightarrow> string \<times> report_entry \<Rightarrow> gen_state \<Rightarrow> py_exception + gen_state" where
  \<comment> \<open>lines 166 to 179: the body of the outer loop\<close>
  "write_property w use_api item st =
     for_each (write_term w use_api (fst item)) (values_of (snd item)) st"

text \<open>
  \<open>generate_jsonld_files\<close> ends in a bare \<^verbatim>\<open>return\<close>: the value returned is Python's
  \<^verbatim>\<open>None\<close>, here \<open>None\<close> of type \<^typ>\<open>nat option\<close>.
\<close>

definition generate_jsonld_files ::
  "env \<Rightarrow> report \<Rightarrow> bool \<Rightarrow> gen_state \<Rightarrow> py_exception + (nat option \<times> gen_state)"
where
  "generate_jsonld_files w report use_api st =
     (case for_each (write_property w use_api) report (st\<lparr>terms_counter := []\<rparr>) of
        Inl e \<Rightarrow> Inl e
      | Inr st' \<Rightarrow>
          Inr (None,
               st'\<lparr>stdout := stdout st'
                     @ [''JSON-LD files created: '' @ str_of_nat (length (terms_counter st'))]\<rparr>))"

section \<open>Notions of the specification\<close>

text \<open>
  The test of line 50 on one entry of \<^verbatim>\<open>existing_ids\<close>, and the test in the words of the
  specification, which compares without regard to letter case.
\<close>

definition curie_has_ILX :: "obj \<Rightarrow> bool" where
  "curie_has_ILX i =
     (case map_of i ''curie'' of None \<Rightarrow> False | Some c \<Rightarrow> str_contains ''ILX:'' c)"

definition curie_has_ILX_any_case :: "obj \<Rightarrow> bool" where
  "curie_has_ILX_any_case i =
     (case map_of i ''curie'' of None \<Rightarrow> False | Some c \<Rightarrow> str_contains ''ILX:'' (str_upper c))"

text \<open>The terms of a report, lowercased: what \<^verbatim>\<open>terms_counter\<close> counts.\<close>

definition lowered_terms :: "report \<Rightarrow> string set" where
  "lowered_terms report = (\<Union>item \<in> set report. str_lower ` set (values_of (snd item)))"

section \<open>Inputs for the examples\<close>

definition credentials_with_key :: credentials where
  "credentials_with_key = \<lparr>api_key = Some ''secret'', comment = Some ''Please provide your API key''\<rparr>"

definition credentials_without_key :: credentials where
  "credentials_without_key = \<lparr>api_key = Some [], comment = Some ''Please provide your API key''\<rparr>"

definition respond_with :: "obj list \<Rightarrow> string \<Rightarrow> py_exception + http_response" where
  \<comment> \<open>a service that answers every request with the same list of identifiers\<close>
  "respond_with ids url =
     Inr \<lparr>status_ok = True, status_error = [],
          content = Some \<lparr>data = Some \<lparr>existing_ids = Some ids\<rparr>\<rparr>\<rparr>"

definition respond_not_found :: "string \<Rightarrow> py_exception + http_response" where
  \<comment> \<open>a service that answers every request with an error status\<close>
  "respond_not_found url =
     Inr \<lparr>status_ok = False, status_error = ''404 Client Error'', content = None\<rparr>"

definition unreachable :: "string \<Rightarrow> py_exception + http_response" where
  \<comment> \<open>no connection: \<^verbatim>\<open>requests.get\<close> raises\<close>
  "unreachable url = Inl (ConnectionError ''Connection refused'')"

definition example_env :: "credentials \<Rightarrow> (string \<Rightarrow> py_exception + http_response) \<Rightarrow> env" where
  "example_env c service =
     \<lparr>api_key_file = Some c, requests_get = service,
      JSONLD_TEMPLATE = [(''@type'', JString ''Term''), (''label'', JString [])],
      CURRENT_WORKING_DIR = ''/conp/scripts''\<rparr>"

definition nothing_written :: gen_state where
  "nothing_written = \<lparr>dirs = {}, files = Map.empty, terms_counter = [], log = [], stdout = []\<rparr>"

section \<open>Evaluation of the string functions\<close>

lemmas str_defs =
  str_lower_def str_upper_def str_title_def str_replace_space_def char_lower_def char_upper_def
  char_is_cased_def char_isalnum_def ascii_uppercase_def ascii_lowercase_def ascii_digits_def

lemma space_not_alnum: "\<not> char_isalnum CHR '' ''"
  by (simp add: str_defs)

lemma filter_alnum_replace_space:
  "filter char_isalnum (str_replace_space s) = filter char_isalnum s"
proof (induction s)
  case Nil
  show ?case by (simp add: str_replace_space_def)
next
  case (Cons c s)
  then show ?case
    using space_not_alnum by (cases "c = CHR '' ''") (auto simp: str_replace_space_def)
qed

section \<open>Output file names: the hyphen is removed\<close>

text \<open>
  C3, as stated, at the term \<^verbatim>\<open>CC-BY 4.0\<close>: the file name computed by line 176 is not
  \<^verbatim>\<open>Cc-By40\<close>.
\<close>

theorem filename_hyphen_counterexample: "filename_of ''CC-BY 4.0'' \<noteq> ''Cc-By40''"
  by (simp add: filename_of_def str_defs)

text \<open>
  C3, amended: the file name of a term is its title-cased form with every character that
  is not alphanumeric removed (the removal of the spaces is subsumed: a space is not
  alphanumeric, and neither are a hyphen and a period); the term \<^verbatim>\<open>CC-BY 4.0\<close> gives the
  file name \<^verbatim>\<open>CcBy40\<close>.
\<close>

theorem filename_alnum_of_title:
  "filename_of term = filter char_isalnum (str_title term)
   \<and> filename_of ''CC-BY 4.0'' = ''CcBy40''"
proof
  show "filename_of term = filter char_isalnum (str_title term)"
    by (simp add: filename_of_def filter_alnum_replace_space)
  show "filename_of ''CC-BY 4.0'' = ''CcBy40''"
    by (simp add: filename_of_def str_defs)
qed

section \<open>The lookup call: lemmas\<close>

lemma upper_ILX: "str_upper ''ILX:'' = ''ILX:''"
  by (simp add: str_defs)

lemma map_of_dict_set: "map_of (dict_set k v d) = (map_of d)(k \<mapsto> v)"
  by (induction d) (auto simp: fun_eq_iff)

lemma str_contains_map:
  "str_contains sub s \<Longrightarrow> str_contains (map f sub) (map f s)"
proof (induction s)
  case Nil
  then show ?case by simp
next
  case (Cons c s)
  show ?case
  proof (cases "take (length sub) (c # s) = sub")
    case True
    then have "take (length (map f sub)) (map f (c # s)) = map f sub"
      by (metis length_map take_map)
    then show ?thesis by simp
  next
    case False
    with Cons show ?thesis by simp
  qed
qed

lemma curie_has_ILX_any_case: "curie_has_ILX i \<Longrightarrow> curie_has_ILX_any_case i"
  using str_contains_map [of "''ILX:''" _ char_upper] upper_ILX
  by (auto simp: curie_has_ILX_def curie_has_ILX_any_case_def str_upper_def split: option.splits)

lemma select_match_step:
  "select_match match (i # ids) =
     (if curie_has_ILX i
      then (case map_of i ''iri'' of None \<Rightarrow> Inl (KeyError ''iri'') | Some u \<Rightarrow> select_match u ids)
      else select_match match ids)"
  by (auto simp: curie_has_ILX_def getitem_def upper_ILX split: option.splits)

lemma select_match_last:
  assumes "\<forall>i\<in>set ids. curie_has_ILX i \<longrightarrow> map_of i ''iri'' \<noteq> None"
  shows "select_match match ids =
           Inr (if filter curie_has_ILX ids = [] then match
                else the (map_of (last (filter curie_has_ILX ids)) ''iri''))"
  using assms
proof (induction ids arbitrary: match)
  case Nil
  show ?case by simp
next
  case (Cons i ids)
  show ?case
  proof (cases "curie_has_ILX i")
    case True
    with Cons.prems obtain u where u: "map_of i ''iri'' = Some u" by auto
    have "select_match match (i # ids) = select_match u ids"
      using True u by (simp only: select_match_step) simp
    also have "\<dots> = Inr (if filter curie_has_ILX ids = [] then u
                else the (map_of (last (filter curie_has_ILX ids)) ''iri''))"
      using Cons.IH Cons.prems by simp
    finally show ?thesis using True u by simp
  next
    case False
    have "select_match match (i # ids) = select_match match ids"
      using False by (simp only: select_match_step) simp
    then show ?thesis using Cons.IH Cons.prems False by simp
  qed
qed

lemma api_request_ok:
  assumes "requests_get w (NIF_API_URL @ term @ ''?key='' @ key) = Inr r"
    and "status_ok r" and "content r = Some response" and "data response = Some d"
    and "existing_ids d = Some ids"
  shows "api_request w term key =
           (if ids \<noteq> [] then select_match [] ids else Inr ''no match found'')"
  using assms by (simp add: api_request_def)

lemma get_api_response_ok:
  assumes "load_api_key w = Inr key" and "api_request w term key = Inr match"
  shows "get_api_response w term = Inr (Some match, [])"
  using assms by (simp add: get_api_response_def)

section \<open>C1: which entry of the response is selected\<close>

text \<open>
  C1, amended. For a successful response whose list \<^verbatim>\<open>data.existing_ids\<close> is \<open>ids\<close>, in
  which every entry whose curie has the marker in some letter case has it as \<^verbatim>\<open>ILX:\<close> and
  has an iri: \<open>get_api_response\<close> returns \<^verbatim>\<open>no match found\<close> when the list is empty, the
  empty string when the list is not empty and no curie has the marker, and otherwise the
  iri of the \<^emph>\<open>last\<close> entry whose curie has the marker. When no iri of the list is the
  string \<^verbatim>\<open>no match found\<close>, that string is returned exactly when the list is empty.
\<close>

theorem get_api_response_last_ILX:
  assumes key: "load_api_key w = Inr key"
    and get: "requests_get w (NIF_API_URL @ term @ ''?key='' @ key) = Inr r"
    and ok: "status_ok r"
    and body: "content r = Some response" "data response = Some d" "existing_ids d = Some ids"
    and entries: "\<forall>i\<in>set ids. curie_has_ILX_any_case i \<longrightarrow> curie_has_ILX i \<and> map_of i ''iri'' \<noteq> None"
  shows "get_api_response w term =
           Inr (Some (if ids = [] then ''no match found''
                      else if filter curie_has_ILX_any_case ids = [] then []
                      else the (map_of (last (filter curie_has_ILX_any_case ids)) ''iri'')), [])
         \<and> ((\<forall>i\<in>set ids. map_of i ''iri'' \<noteq> Some ''no match found'') \<longrightarrow>
              (get_api_response w term = Inr (Some ''no match found'', []) \<longleftrightarrow> ids = []))"
proof -
  let ?ms = "filter curie_has_ILX_any_case ids"
  have same: "filter curie_has_ILX ids = ?ms"
    using entries curie_has_ILX_any_case by (intro filter_cong) auto
  have iris: "\<forall>i\<in>set ids. curie_has_ILX i \<longrightarrow> map_of i ''iri'' \<noteq> None"
    using entries curie_has_ILX_any_case by blast
  have sel: "select_match [] ids =
               Inr (if ?ms = [] then [] else the (map_of (last ?ms) ''iri''))"
    using select_match_last [OF iris, of "[]"] same by simp
  have req: "api_request w term key =
               Inr (if ids = [] then ''no match found''
                    else if ?ms = [] then [] else the (map_of (last ?ms) ''iri''))"
    using api_request_ok [OF get ok body] sel by simp
  have first: "get_api_response w term =
           Inr (Some (if ids = [] then ''no match found''
                      else if ?ms = [] then []
                      else the (map_of (last ?ms) ''iri'')), [])"
    by (rule get_api_response_ok [OF key req])
  have second: "get_api_response w term = Inr (Some ''no match found'', []) \<longleftrightarrow> ids = []"
    if no: "\<forall>i\<in>set ids. map_of i ''iri'' \<noteq> Some ''no match found''"
  proof (cases "ids = []")
    case True
    with first show ?thesis by simp
  next
    case False
    show ?thesis
    proof (cases "?ms = []")
      case True
      with first False show ?thesis by simp
    next
      case nonempty: False
      then have "last ?ms \<in> set ?ms" by (rule last_in_set)
      then have mem: "last ?ms \<in> set ids" and "curie_has_ILX_any_case (last ?ms)" by auto
      with entries obtain u where u: "map_of (last ?ms) ''iri'' = Some u" by auto
      with no mem have "u \<noteq> ''no match found''" by auto
      with first False nonempty u show ?thesis by simp
    qed
  qed
  from first second show ?thesis by blast
qed


lemmas lookup_defs =
  get_api_response_def load_api_key_def api_request_def raise_error_def getitem_def
  example_env_def credentials_with_key_def credentials_without_key_def respond_with_def
  respond_not_found_def unreachable_def

text \<open>
  C1, as stated, fails at three responses. With two entries whose curie has \<^verbatim>\<open>ILX:\<close>, the
  iri returned is the one of the second entry, not of the first. An entry whose curie
  spells the marker in lower case is not selected. And a non-empty list gives the string
  \<^verbatim>\<open>no match found\<close> when that string is the iri selected.
\<close>

theorem first_ILX_entry_counterexample:
  "get_api_response
     (example_env credentials_with_key
        (respond_with [[(''curie'', ''ILX:0101''), (''iri'', ''http://uri.interlex.org/base/ilx_0101'')],
                       [(''curie'', ''ILX:0202''), (''iri'', ''http://uri.interlex.org/base/ilx_0202'')]]))
     ''mri'' = Inr (Some ''http://uri.interlex.org/base/ilx_0202'', [])
   \<and> get_api_response
     (example_env credentials_with_key
        (respond_with [[(''curie'', ''ilx:0101''), (''iri'', ''http://uri.interlex.org/base/ilx_0101'')]]))
     ''mri'' = Inr (Some [], [])
   \<and> get_api_response
     (example_env credentials_with_key
        (respond_with [[(''curie'', ''ILX:0101''), (''iri'', ''no match found'')]]))
     ''mri'' = Inr (Some ''no match found'', [])"
  by (simp add: lookup_defs str_defs)

text \<open>
  The amended C1 at a response of four entries: two with an \<^verbatim>\<open>ILX:\<close> curie, one with
  another curie, one with none.
\<close>

theorem get_api_response_last_ILX_witness:
  "get_api_response
     (example_env credentials_with_key
        (respond_with [[(''curie'', ''ILX:0101''), (''iri'', ''http://uri.interlex.org/base/ilx_0101'')],
                       [(''curie'', ''UBERON:0000955''), (''iri'', ''http://purl.obolibrary.org/obo/UBERON_0000955'')],
                       [(''curie'', ''ILX:0202''), (''iri'', ''http://uri.interlex.org/base/ilx_0202'')],
                       [(''iri'', ''http://example.org/no-curie'')]]))
     ''mri'' = Inr (Some ''http://uri.interlex.org/base/ilx_0202'', [])"
proof -
  let ?ids = "[[(''curie'', ''ILX:0101''), (''iri'', ''http://uri.interlex.org/base/ilx_0101'')],
               [(''curie'', ''UBERON:0000955''), (''iri'', ''http://purl.obolibrary.org/obo/UBERON_0000955'')],
               [(''curie'', ''ILX:0202''), (''iri'', ''http://uri.interlex.org/base/ilx_0202'')],
               [(''iri'', ''http://example.org/no-curie'')]]"
  let ?w = "example_env credentials_with_key (respond_with ?ids)"
  let ?d = "\<lparr>existing_ids = Some ?ids\<rparr>"
  let ?response = "\<lparr>data = Some ?d\<rparr>"
  let ?r = "\<lparr>status_ok = True, status_error = [], content = Some ?response\<rparr>"
  have key: "load_api_key ?w = Inr ''secret''"
    by (simp add: lookup_defs)
  have get: "requests_get ?w (NIF_API_URL @ ''mri'' @ ''?key='' @ ''secret'') = Inr ?r"
    by (simp add: lookup_defs)
  have entries: "\<forall>i\<in>set ?ids. curie_has_ILX_any_case i \<longrightarrow> curie_has_ILX i \<and> map_of i ''iri'' \<noteq> None"
    by (simp add: curie_has_ILX_any_case_def curie_has_ILX_def str_defs)
  show ?thesis
    using get_api_response_last_ILX [OF key get _ _ _ _ entries, of ?response ?d]
    by (simp add: curie_has_ILX_any_case_def str_defs)
qed

section \<open>The generator: one term\<close>

lemma select_match_none:
  assumes "\<forall>i\<in>set ids. \<not> curie_has_ILX i"
  shows "select_match match ids = Inr match"
  using select_match_last [of ids match] assms by (simp add: filter_empty_conv)

lemma describe_term_lookup:
  assumes "get_api_response w (str_lower term) = Inr (r, lg)"
  shows "describe_term w True term =
           Inr (dict_set ''sameAs'' (case r of None \<Rightarrow> JNull | Some u \<Rightarrow> JString u)
                  (dict_set ''label'' (JString (str_lower term)) (JSONLD_TEMPLATE w)), lg)"
  using assms by (simp add: describe_term_def)

lemma describe_term_raises:
  assumes "get_api_response w (str_lower term) = Inl e"
  shows "describe_term w True term = Inl e"
  using assms by (simp add: describe_term_def)

lemma describe_term_no_lookup:
  "describe_term w False term =
     Inr (dict_set ''label'' (JString (str_lower term)) (JSONLD_TEMPLATE w), [])"
  by (simp add: describe_term_def)

lemma write_term_file:
  assumes "describe_term w use_api term = Inr (doc, lg)"
  shows "\<exists>st'. write_term w use_api key term st = Inr st'
           \<and> files st' = (files st)(term_path w key term \<mapsto> doc)
           \<and> log st' = log st @ lg \<and> stdout st' = stdout st
           \<and> terms_counter st' = counter_update (str_lower term) (terms_counter st)"
  using assms by (simp add: write_term_def Let_def)

lemma write_term_raises:
  assumes "describe_term w use_api term = Inl e"
  shows "write_term w use_api key term st = Inl e"
  using assms by (simp add: write_term_def Let_def)

lemma for_each_returns:
  assumes "\<And>x s. x \<in> set xs \<Longrightarrow> \<exists>s'. body x s = Inr s'"
  shows "\<exists>s'. for_each body xs s = Inr s'"
  using assms
proof (induction xs arbitrary: s)
  case Nil
  show ?case by simp
next
  case (Cons x xs)
  from Cons.prems [of x s] obtain s1 where "body x s = Inr s1" by auto
  moreover from Cons.IH [of s1] Cons.prems obtain s2 where "for_each body xs s1 = Inr s2"
    by auto
  ultimately show ?case by simp
qed

lemmas generator_defs =
  generate_jsonld_files_def write_property_def write_term_def describe_term_def term_path_def
  path_join_def path_exists_def counter_update_def filename_of_def nothing_written_def

section \<open>C10: a response with identifiers, none of them from InterLex\<close>

text \<open>
  C10. When the request succeeds and \<^verbatim>\<open>data.existing_ids\<close> is a non-empty list in which no
  entry has a curie containing \<^verbatim>\<open>ILX:\<close>, \<open>get_api_response\<close> returns the empty string
  (neither \<^verbatim>\<open>no match found\<close> nor \<open>None\<close>), and the document written for the term has
  the field \<^verbatim>\<open>sameAs\<close> set to the empty string.
\<close>

theorem no_ILX_curie_gives_empty_sameAs:
  assumes key: "load_api_key w = Inr key"
    and get: "requests_get w (NIF_API_URL @ str_lower term @ ''?key='' @ key) = Inr r"
    and ok: "status_ok r"
    and body: "content r = Some response" "data response = Some d" "existing_ids d = Some ids"
    and nonempty: "ids \<noteq> []"
    and no_ilx: "\<forall>i\<in>set ids. \<not> curie_has_ILX i"
  shows "get_api_response w (str_lower term) = Inr (Some [], [])
         \<and> (\<exists>st'. write_term w True property term st = Inr st'
               \<and> files st' (term_path w property term) =
                   Some (dict_set ''sameAs'' (JString [])
                           (dict_set ''label'' (JString (str_lower term)) (JSONLD_TEMPLATE w)))
               \<and> map_of (the (files st' (term_path w property term))) ''sameAs'' = Some (JString []))"
proof -
  have "api_request w (str_lower term) key = Inr []"
    using api_request_ok [OF get ok body] nonempty select_match_none [OF no_ilx] by simp
  then have lookup: "get_api_response w (str_lower term) = Inr (Some [], [])"
    by (rule get_api_response_ok [OF key])
  let ?doc = "dict_set ''sameAs'' (JString [])
                (dict_set ''label'' (JString (str_lower term)) (JSONLD_TEMPLATE w))"
  have "describe_term w True term = Inr (?doc, [])"
    using describe_term_lookup [OF lookup] by simp
  from write_term_file [OF this, of property st]
  obtain st' where "write_term w True property term st = Inr st'"
    and "files st' = (files st)(term_path w property term \<mapsto> ?doc)" by blast
  then have "write_term w True property term st = Inr st'
     \<and> files st' (term_path w property term) = Some ?doc
     \<and> map_of (the (files st' (term_path w property term))) ''sameAs'' = Some (JString [])"
    by (simp add: map_of_dict_set)
  with lookup show ?thesis by blast
qed


text \<open>C10 at a response whose only identifier is an UBERON one.\<close>

theorem no_ILX_curie_gives_empty_sameAs_witness:
  "get_api_response
     (example_env credentials_with_key
        (respond_with [[(''curie'', ''UBERON:0000955''), (''iri'', ''http://purl.obolibrary.org/obo/UBERON_0000955'')]]))
     ''brain'' = Inr (Some [], [])
   \<and> files (projr (write_term
        (example_env credentials_with_key
           (respond_with [[(''curie'', ''UBERON:0000955''), (''iri'', ''http://purl.obolibrary.org/obo/UBERON_0000955'')]]))
        True ''is_about'' ''Brain'' nothing_written))
      ''/conp/scripts/is_about/Brain.jsonld''
     = Some [(''@type'', JString ''Term''), (''label'', JString ''brain''), (''sameAs'', JString [])]"
proof -
  let ?ids = "[[(''curie'', ''UBERON:0000955''), (''iri'', ''http://purl.obolibrary.org/obo/UBERON_0000955'')]]"
  let ?w = "example_env credentials_with_key (respond_with ?ids)"
  let ?d = "\<lparr>existing_ids = Some ?ids\<rparr>"
  let ?response = "\<lparr>data = Some ?d\<rparr>"
  let ?r = "\<lparr>status_ok = True, status_error = [], content = Some ?response\<rparr>"
  have key: "load_api_key ?w = Inr ''secret''"
    by (simp add: lookup_defs)
  have get: "requests_get ?w (NIF_API_URL @ str_lower ''Brain'' @ ''?key='' @ ''secret'') = Inr ?r"
    by (simp add: lookup_defs)
  have no_ilx: "\<forall>i\<in>set ?ids. \<not> curie_has_ILX i"
    by (simp add: curie_has_ILX_def)
  have lower: "str_lower ''Brain'' = ''brain''"
    by (simp add: str_defs)
  have path: "term_path ?w ''is_about'' ''Brain'' = ''/conp/scripts/is_about/Brain.jsonld''"
    by (simp add: generator_defs example_env_def str_defs)
  have template: "JSONLD_TEMPLATE ?w = [(''@type'', JString ''Term''), (''label'', JString [])]"
    by (simp add: example_env_def)
  from no_ILX_curie_gives_empty_sameAs
         [OF key get _ _ _ _ _ no_ilx, of ?response ?d "''is_about''" nothing_written]
  show ?thesis
    unfolding lower path template by auto
qed

end
